theory Spec2Isabelle
  imports Main "HOL-Library.Multiset"
begin

section \<open>The graceful shutdown script of the conference focus\<close>

text \<open>
  The development embeds \<^verbatim>\<open>script/graceful_shutdown.py\<close>: the function
  \<^verbatim>\<open>get_conferences\<close>, the session handler
  \<^verbatim>\<open>FocusShutdownUserBot.shutdown_focus\<close> and the \<^verbatim>\<open>__main__\<close> block.
  The XMPP library is the environment: what each blocking \<^verbatim>\<open>send()\<close> answers
  is an input of the model, and every effect of the script (a stanza sent, a log line, a
  sleep, the disconnect) is appended to a trace.
\<close>

subsection \<open>Python values and XML elements\<close>

text \<open>
  \<^verbatim>\<open>get_conferences\<close> returns a string (an attribute value), \<^verbatim>\<open>None\<close>
  (an attribute that is not there) or the integer \<^verbatim>\<open>-1\<close>.
\<close>

datatype pyval = PyStr string | PyNone | PyInt int

text \<open>Python's \<^verbatim>\<open>str()\<close> on these values; integers are printed in decimal.\<close>

fun digits10 :: "nat \<Rightarrow> string" where
  "digits10 n =
     (if n < 10 then [char_of (48 + n)]
      else digits10 (n div 10) @ [char_of (48 + n mod 10)])"

declare digits10.simps [simp del]

definition str_int :: "int \<Rightarrow> string" where
  "str_int i = (if i < 0 then CHR ''-'' # digits10 (nat (- i)) else digits10 (nat i))"

fun py_str :: "pyval \<Rightarrow> string" where
  "py_str (PyStr s) = s"
| "py_str PyNone = ''None''"
| "py_str (PyInt i) = str_int i"

text \<open>
  An XML element as far as the script reads it: its qualified tag and its attributes.
  \<^verbatim>\<open>Element.get(key)\<close> is the dictionary lookup, \<^verbatim>\<open>None\<close> when absent.
\<close>

record element =
  tag :: string
  attrib :: "string \<rightharpoonup> string"

definition elem_get :: "element \<Rightarrow> string \<Rightarrow> pyval" where
  "elem_get e key = (case attrib e key of None \<Rightarrow> PyNone | Some v \<Rightarrow> PyStr v)"

text \<open>\<^verbatim>\<open>findall(tag)\<close>: the direct children with that tag, in document order.\<close>

definition findall :: "element list \<Rightarrow> string \<Rightarrow> element list" where
  "findall children path = filter (\<lambda>e. tag e = path) children"

subsection \<open>\<^verbatim>\<open>get_conferences\<close>\<close>

text \<open>
  \<^verbatim>\<open>
  def get_conferences(stats_xml):
      for stat in stats_xml.findall('{http://jitsi.org/protocol/colibri}stat'):
          name = stat.get('name')
          value = stat.get('value')
          if name == 'conferences':
              return value
      return -1
  \<close>
  The stats payload is given by the list of its child elements.
\<close>

fun conferences_loop :: "element list \<Rightarrow> pyval" where
  "conferences_loop [] = PyInt (- 1)"
| "conferences_loop (stat # stats) =
     (let name = elem_get stat ''name'';
          value = elem_get stat ''value''
      in if name = PyStr ''conferences'' then value else conferences_loop stats)"

definition get_conferences :: "element list \<Rightarrow> pyval" where
  "get_conferences stats_xml =
     conferences_loop (findall stats_xml ''{http://jitsi.org/protocol/colibri}stat'')"

subsection \<open>The environment and the state\<close>

text \<open>
  A \<^verbatim>\<open>StanzaError\<close> carries the error type and the condition. A response stanza
  carries its \<^verbatim>\<open>type\<close> and the children of its \<^verbatim>\<open>colibri-stats\<close> payload
  (none when the payload is absent). A blocking \<^verbatim>\<open>send()\<close> either returns a
  response or raises.
\<close>

record stanza_error =
  etype :: string
  condition :: string

record iq =
  iq_type :: string
  colibri_stats :: "element list"

datatype send_outcome = Returns iq | Raises stanza_error

datatype event =
    SendShutdown
  | SendStats
  | Sleep nat
  | Disconnect bool
  | SetExitCode int
  | LogInfo string
  | LogError string
  | StderrWrite string
  | Connect string nat

text \<open>
  The global \<^verbatim>\<open>exitCode\<close> and the trace of effects so far. An assignment to
  the global is an effect too and is recorded as \<open>SetExitCode\<close>.
\<close>

record state =
  exitCode :: int
  trace :: "event list"

definition emit :: "event \<Rightarrow> state \<Rightarrow> state" where
  "emit e st = st\<lparr>trace := trace st @ [e]\<rparr>"

subsection \<open>The polling loop\<close>

text \<open>
  \<^verbatim>\<open>
  while True:
      stats_iq = self.create_request_stats_iq()
      resp = stats_iq.send()
      stats = resp['colibri-stats']
      conf_count = get_conferences(stats)
      logging.info('There are ' + str(conf_count) + ' conferences in progress')
      if conf_count == '0':
          break
      else:
          time.sleep(10)
  \<close>
  The loop has no bound. The model runs it against the answers the server gives to the
  successive stats queries; when that list is used up the loop has not ended
  (\<open>Blocked\<close>: the next query is not issued within the observed run). The loop ends
  by \<^verbatim>\<open>break\<close> or by a \<^verbatim>\<open>StanzaError\<close> that \<^verbatim>\<open>send()\<close> raises.
\<close>

datatype loop_exit = Break | Raised stanza_error | Blocked

definition log_count :: "pyval \<Rightarrow> state \<Rightarrow> state" where
  "log_count conf_count st =
     emit (LogInfo (''There are '' @ py_str conf_count @ '' conferences in progress'')) st"

fun poll_loop :: "send_outcome list \<Rightarrow> state \<Rightarrow> loop_exit \<times> state" where
  "poll_loop [] st = (Blocked, st)"
| "poll_loop (Raises err # replies) st = (Raised err, emit SendStats st)"
| "poll_loop (Returns resp # replies) st =
     (let st1 = emit SendStats st;
          stats = colibri_stats resp;
          conf_count = get_conferences stats;
          st2 = log_count conf_count st1
      in if conf_count = PyStr ''0'' then (Break, st2)
         else poll_loop replies (emit (Sleep 10) st2))"

subsection \<open>\<^verbatim>\<open>shutdown_focus\<close>\<close>

text \<open>
  The handler of \<^verbatim>\<open>except StanzaError as error\<close>:
  \<^verbatim>\<open>
  if not shutdown_accepted and error.etype != 'wait' and \
          error.condition != 'service-unavailable':
      global exitCode
      exitCode = 1
      logging.error('There was an error sending shutdown request.')
  self.disconnect(wait=True)
  \<close>
\<close>

definition except_StanzaError :: "bool \<Rightarrow> stanza_error \<Rightarrow> state \<Rightarrow> state" where
  "except_StanzaError shutdown_accepted error st =
     emit (Disconnect True)
       (if \<not> shutdown_accepted \<and> etype error \<noteq> ''wait''
             \<and> condition error \<noteq> ''service-unavailable''
        then emit (LogError ''There was an error sending shutdown request.'')
               (emit (SetExitCode 1) (st\<lparr>exitCode := 1\<rparr>))
        else st)"

text \<open>
  The handler of the session start. \<open>Returned\<close>: the method has returned;
  \<open>Running\<close>: it is still in its polling loop at the end of the observed answers.
  When the response to the shutdown request is not of type \<^verbatim>\<open>result\<close> and nothing
  was raised, the method returns without any further effect.
\<close>

datatype status = Returned | Running

definition shutdown_focus ::
    "send_outcome \<Rightarrow> send_outcome list \<Rightarrow> state \<Rightarrow> status \<times> state" where
  "shutdown_focus shutdown_reply stats_replies st =
     (let st1 = emit SendShutdown st in
      case shutdown_reply of
        Raises error \<Rightarrow> (Returned, except_StanzaError False error st1)
      | Returns resp \<Rightarrow>
          if iq_type resp = ''result'' then
            (let st2 = emit (LogInfo ''Shutdown accepted'') st1 in
             case poll_loop stats_replies st2 of
               (Break, st3) \<Rightarrow>
                 (Returned,
                  emit (Disconnect True) (emit (LogInfo ''End of shutdown procedure'') st3))
             | (Raised error, st3) \<Rightarrow> (Returned, except_StanzaError True error st3)
             | (Blocked, st3) \<Rightarrow> (Running, st3))
          else (Returned, st1))"

subsection \<open>The main block\<close>

text \<open>
  The four required options, as parsed (\<open>None\<close>: not given). The log level options
  only configure logging and are left out.
\<close>

record options =
  server :: "string option"
  jid :: "string option"
  password :: "string option"
  focus :: "string option"

text \<open>
  \<^verbatim>\<open>xmpp.process(block=True)\<close> belongs to the XMPP library. It is taken to start
  the session once, which runs \<^verbatim>\<open>shutdown_focus\<close>, and to return when the stream
  has been disconnected; otherwise the process keeps running.
\<close>

definition disconnected :: "state \<Rightarrow> bool" where
  "disconnected st = list_ex (\<lambda>e. case e of Disconnect w \<Rightarrow> True | _ \<Rightarrow> False) (trace st)"

definition process :: "send_outcome \<Rightarrow> send_outcome list \<Rightarrow> state \<Rightarrow> status \<times> state" where
  "process shutdown_reply stats_replies st =
     (case shutdown_focus shutdown_reply stats_replies st of
        (Returned, st') \<Rightarrow> if disconnected st' then (Returned, st') else (Running, st')
      | (Running, st') \<Rightarrow> (Running, st'))"

text \<open>
  \<^verbatim>\<open>
  if opts.server is None:
      sys.stderr.write("No XMPP server name specified")
      exit(1)
  ... (jid, password, focus alike)
  xmpp = FocusShutdownUserBot(opts.jid, opts.password, opts.focus)
  if xmpp.connect(address=(opts.server, 5222)):
      xmpp.process(block=True)
      logging.info("Done")
  else:
      logging.error("Unable to connect.")
  exit(exitCode)
  \<close>
  The result is the exit code of the process, \<open>None\<close> while it is still running,
  together with the final state. \<open>connect_ok\<close> is what \<^verbatim>\<open>connect\<close> returns.
\<close>

definition init_state :: state where
  "init_state = \<lparr>exitCode = 0, trace = []\<rparr>"

definition connect_and_run ::
    "string \<Rightarrow> bool \<Rightarrow> send_outcome \<Rightarrow> send_outcome list \<Rightarrow> state \<Rightarrow> int option \<times> state" where
  "connect_and_run srv connect_ok shutdown_reply stats_replies st =
     (let st1 = emit (Connect srv 5222) st in
      if connect_ok then
        (case process shutdown_reply stats_replies st1 of
           (Returned, st2) \<Rightarrow>
             (let st3 = emit (LogInfo ''Done'') st2 in (Some (exitCode st3), st3))
         | (Running, st2) \<Rightarrow> (None, st2))
      else
        (let st2 = emit (LogError ''Unable to connect.'') st1 in (Some (exitCode st2), st2)))"

definition main ::
    "options \<Rightarrow> bool \<Rightarrow> send_outcome \<Rightarrow> send_outcome list \<Rightarrow> int option \<times> state" where
  "main opts connect_ok shutdown_reply stats_replies =
     (let st = init_state in
      case server opts of
        None \<Rightarrow> (Some 1, emit (StderrWrite ''No XMPP server name specified'') st)
      | Some srv \<Rightarrow>
      (case jid opts of
        None \<Rightarrow> (Some 1, emit (StderrWrite ''No user JID specified'') st)
      | Some _ \<Rightarrow>
      (case password opts of
        None \<Rightarrow> (Some 1, emit (StderrWrite ''No user password specified'') st)
      | Some _ \<Rightarrow>
      (case focus opts of
        None \<Rightarrow> (Some 1, emit (StderrWrite ''No focus JID specified'') st)
      | Some _ \<Rightarrow> connect_and_run srv connect_ok shutdown_reply stats_replies st))))"

subsection \<open>Observations on a trace\<close>

definition polls :: "state \<Rightarrow> nat" where
  "polls st = count_list (trace st) SendStats"

definition sleeps :: "state \<Rightarrow> nat" where
  "sleeps st = length (filter (\<lambda>e. case e of Sleep n \<Rightarrow> True | _ \<Rightarrow> False) (trace st))"

definition disconnects :: "bool \<Rightarrow> state \<Rightarrow> nat" where
  "disconnects wait st = count_list (trace st) (Disconnect wait)"

definition errors_logged :: "state \<Rightarrow> nat" where
  "errors_logged st =
     length (filter (\<lambda>e. case e of LogError m \<Rightarrow> True | _ \<Rightarrow> False) (trace st))"

fun exit_writes_of :: "event list \<Rightarrow> int list" where
  "exit_writes_of [] = []"
| "exit_writes_of (SetExitCode v # evs) = v # exit_writes_of evs"
| "exit_writes_of (e # evs) = exit_writes_of evs"

definition exit_writes :: "state \<Rightarrow> int list" where
  "exit_writes st = exit_writes_of (trace st)"

text \<open>A child of the stats payload that \<^verbatim>\<open>get_conferences\<close> stops at.\<close>

definition is_conferences_stat :: "element \<Rightarrow> bool" where
  "is_conferences_stat e =
     (tag e = ''{http://jitsi.org/protocol/colibri}stat''
      \<and> attrib e ''name'' = Some ''conferences'')"

text \<open>
  Stanzas as the focus sends them: a \<^verbatim>\<open>stat\<close> element with a name and a value, a
  response of type \<^verbatim>\<open>result\<close> with the given children in its stats payload, and
  an error with a type and a condition.
\<close>

definition stat_element :: "string \<Rightarrow> string \<Rightarrow> element" where
  "stat_element n v =
     \<lparr>tag = ''{http://jitsi.org/protocol/colibri}stat'',
      attrib = [''name'' \<mapsto> n, ''value'' \<mapsto> v]\<rparr>"

definition result_iq :: "element list \<Rightarrow> iq" where
  "result_iq children = \<lparr>iq_type = ''result'', colibri_stats = children\<rparr>"

definition error_of :: "string \<Rightarrow> string \<Rightarrow> stanza_error" where
  "error_of t c = \<lparr>etype = t, condition = c\<rparr>"

text \<open>A \<^verbatim>\<open>stat\<close> element named conferences that has no value attribute.\<close>

definition valueless_conferences :: element where
  "valueless_conferences =
     \<lparr>tag = ''{http://jitsi.org/protocol/colibri}stat'', attrib = [''name'' \<mapsto> ''conferences'']\<rparr>"

section \<open>Properties\<close>

subsection \<open>Basic facts about states and the extraction\<close>

lemma trace_emit [simp]: "trace (emit e st) = trace st @ [e]"
  by (simp add: emit_def)

lemma exitCode_emit [simp]: "exitCode (emit e st) = exitCode st"
  by (simp add: emit_def)

lemma trace_log_count [simp]:
  "trace (log_count c st) =
     trace st @ [LogInfo (''There are '' @ py_str c @ '' conferences in progress'')]"
  by (simp add: log_count_def)

lemma exitCode_log_count [simp]: "exitCode (log_count c st) = exitCode st"
  by (simp add: log_count_def)

lemma str_int_minus_one: "str_int (- 1) = ''-1''"
  by code_simp

lemma conferences_loop_filter:
  "conferences_loop stats =
     (case filter (\<lambda>e. attrib e ''name'' = Some ''conferences'') stats of
        [] \<Rightarrow> PyInt (- 1)
      | s # _ \<Rightarrow> elem_get s ''value'')"
  by (induction stats) (auto simp: elem_get_def split: option.splits)

lemma get_conferences_filter:
  "get_conferences stats_xml =
     (case filter is_conferences_stat stats_xml of
        [] \<Rightarrow> PyInt (- 1)
      | s # _ \<Rightarrow> elem_get s ''value'')"
proof -
  have "filter (\<lambda>e. attrib e ''name'' = Some ''conferences'')
          (findall stats_xml ''{http://jitsi.org/protocol/colibri}stat'')
        = filter is_conferences_stat stats_xml"
    unfolding findall_def is_conferences_stat_def filter_filter
    by (rule filter_cong) auto
  then show ?thesis
    by (simp add: get_conferences_def conferences_loop_filter)
qed

lemma get_conferences_absent:
  "\<forall>e \<in> set stats_xml. \<not> is_conferences_stat e \<Longrightarrow> get_conferences stats_xml = PyInt (- 1)"
  by (simp add: get_conferences_filter)


lemma get_conferences_agree:
  assumes "\<forall>e \<in> set stats_xml. is_conferences_stat e \<longrightarrow> elem_get e ''value'' = v"
    and "\<exists>e \<in> set stats_xml. is_conferences_stat e"
  shows "get_conferences stats_xml = v"
proof (cases "filter is_conferences_stat stats_xml")
  case Nil
  with assms(2) show ?thesis by (auto simp: filter_empty_conv)
next
  case (Cons s ss)
  then have "s \<in> set (filter is_conferences_stat stats_xml)" by simp
  then have "s \<in> set stats_xml" "is_conferences_stat s" by auto
  with assms(1) have "elem_get s ''value'' = v" by blast
  with Cons show ?thesis by (simp add: get_conferences_filter)
qed

lemma polls_emit [simp]: "polls (emit e st) = polls st + (if e = SendStats then 1 else 0)"
  by (simp add: polls_def)

lemma sleeps_emit [simp]:
  "sleeps (emit e st) = sleeps st + (case e of Sleep n \<Rightarrow> 1 | _ \<Rightarrow> 0)"
  by (simp add: sleeps_def split: event.splits)

lemma disconnects_emit [simp]:
  "disconnects w (emit e st) = disconnects w st + (if e = Disconnect w then 1 else 0)"
  by (simp add: disconnects_def)

lemma exit_writes_of_append:
  "exit_writes_of (xs @ ys) = exit_writes_of xs @ exit_writes_of ys"
  by (induction xs rule: exit_writes_of.induct) simp_all

lemma exit_writes_emit [simp]:
  "exit_writes (emit e st) = exit_writes st @ (case e of SetExitCode v \<Rightarrow> [v] | _ \<Rightarrow> [])"
  by (simp add: exit_writes_def exit_writes_of_append split: event.splits)

lemma errors_logged_emit [simp]:
  "errors_logged (emit e st) = errors_logged st + (case e of LogError m \<Rightarrow> 1 | _ \<Rightarrow> 0)"
  by (simp add: errors_logged_def split: event.splits)

lemma errors_logged_log_count [simp]: "errors_logged (log_count c st) = errors_logged st"
  by (simp add: log_count_def)

lemma polls_log_count [simp]: "polls (log_count c st) = polls st"
  by (simp add: log_count_def)

lemma sleeps_log_count [simp]: "sleeps (log_count c st) = sleeps st"
  by (simp add: log_count_def)

lemma disconnects_log_count [simp]: "disconnects w (log_count c st) = disconnects w st"
  by (simp add: log_count_def)

lemma exit_writes_log_count [simp]: "exit_writes (log_count c st) = exit_writes st"
  by (simp add: log_count_def)

lemma poll_loop_zero:
  "get_conferences (colibri_stats resp) = PyStr ''0'' \<Longrightarrow>
   poll_loop (Returns resp # replies) st = (Break, log_count (PyStr ''0'') (emit SendStats st))"
  by (simp add: Let_def)

lemma poll_loop_nonzero:
  "get_conferences (colibri_stats resp) \<noteq> PyStr ''0'' \<Longrightarrow>
   poll_loop (Returns resp # replies) st =
     poll_loop replies
       (emit (Sleep 10) (log_count (get_conferences (colibri_stats resp)) (emit SendStats st)))"
  by (simp add: Let_def)

lemma poll_loop_exitCode: "exitCode (snd (poll_loop replies st)) = exitCode st"
proof (induction replies arbitrary: st)
  case Nil
  show ?case by simp
next
  case (Cons r replies)
  show ?case
  proof (cases r)
    case (Returns resp)
    with Cons show ?thesis by (simp add: Let_def)
  next
    case (Raises err)
    then show ?thesis by simp
  qed
qed

lemma poll_loop_disconnects: "disconnects w (snd (poll_loop replies st)) = disconnects w st"
proof (induction replies arbitrary: st)
  case Nil
  show ?case by simp
next
  case (Cons r replies)
  show ?case
  proof (cases r)
    case (Returns resp)
    with Cons show ?thesis by (simp add: Let_def)
  next
    case (Raises err)
    then show ?thesis by simp
  qed
qed

lemma poll_loop_exit_writes: "exit_writes (snd (poll_loop replies st)) = exit_writes st"
proof (induction replies arbitrary: st)
  case Nil
  show ?case by simp
next
  case (Cons r replies)
  show ?case
  proof (cases r)
    case (Returns resp)
    with Cons show ?thesis by (simp add: Let_def)
  next
    case (Raises err)
    then show ?thesis by simp
  qed
qed

lemma poll_loop_polls_mono: "polls st \<le> polls (snd (poll_loop replies st))"
proof (induction replies arbitrary: st)
  case Nil
  show ?case by simp
next
  case (Cons r replies)
  show ?case
  proof (cases r)
    case (Returns resp)
    have "polls (emit (Sleep 10) (log_count (get_conferences (colibri_stats resp)) (emit SendStats st)))
          \<le> polls (snd (poll_loop replies
               (emit (Sleep 10) (log_count (get_conferences (colibri_stats resp)) (emit SendStats st)))))"
      by (rule Cons.IH)
    with Returns show ?thesis by (simp add: Let_def)
  next
    case (Raises err)
    then show ?thesis by simp
  qed
qed

text \<open>The number of leading answers whose count is not the string 0.\<close>

lemma poll_loop_returns:
  fixes rs :: "iq list"
  defines "k \<equiv> length (takeWhile (\<lambda>r. get_conferences (colibri_stats r) \<noteq> PyStr ''0'') rs)"
  shows "fst (poll_loop (map Returns rs) st) = (if k < length rs then Break else Blocked)
       \<and> polls (snd (poll_loop (map Returns rs) st)) = polls st + (if k < length rs then k + 1 else k)
       \<and> sleeps (snd (poll_loop (map Returns rs) st)) = sleeps st + k"
  unfolding k_def
proof (induction rs arbitrary: st)
  case Nil
  show ?case by simp
next
  case (Cons r rs)
  show ?case
  proof (cases "get_conferences (colibri_stats r) = PyStr ''0''")
    case True
    then show ?thesis by (simp add: Let_def)
  next
    case False
    then show ?thesis
      using Cons.IH [of "emit (Sleep 10) (log_count (get_conferences (colibri_stats r)) (emit SendStats st))"]
      by (simp add: Let_def)
  qed
qed

lemma is_conferences_stat_element [simp]:
  "is_conferences_stat (stat_element n v) = (n = ''conferences'')"
  by (simp add: is_conferences_stat_def stat_element_def)

lemma elem_get_value_stat_element [simp]:
  "elem_get (stat_element n v) ''value'' = PyStr v"
  by (simp add: elem_get_def stat_element_def)

lemma get_conferences_Cons_stat_element [simp]:
  "get_conferences (stat_element n v # es) =
     (if n = ''conferences'' then PyStr v else get_conferences es)"
  by (simp add: get_conferences_filter)

lemma get_conferences_Nil [simp]: "get_conferences [] = PyInt (- 1)"
  by (simp add: get_conferences_filter)

subsection \<open>Extraction of the conferences counter\<close>

text \<open>
  Two \<^verbatim>\<open>stat\<close> elements named conferences with different values: the two orders
  of the same elements give different results, since the first match is returned.
\<close>

theorem get_conferences_order_counterexample:
  "mset [stat_element ''conferences'' ''0'', stat_element ''conferences'' ''5'']
     = mset [stat_element ''conferences'' ''5'', stat_element ''conferences'' ''0'']
   \<and> get_conferences [stat_element ''conferences'' ''0'', stat_element ''conferences'' ''5'']
       = PyStr ''0''
   \<and> get_conferences [stat_element ''conferences'' ''5'', stat_element ''conferences'' ''0'']
       = PyStr ''5''
   \<and> get_conferences [stat_element ''conferences'' ''0'', stat_element ''conferences'' ''5'']
       \<noteq> get_conferences [stat_element ''conferences'' ''5'', stat_element ''conferences'' ''0'']"
  by (simp add: add_mset_commute)

text \<open>
  Claim C5, as amended. When all the \<^verbatim>\<open>stat\<close> elements named conferences of a
  response carry the same value attribute (in particular when there is at most one),
  \<^verbatim>\<open>get_conferences\<close> gives the same result on every reordering of the children;
  and when no \<^verbatim>\<open>stat\<close> element named conferences is present it returns the
  integer \<open>-1\<close>.
\<close>

theorem get_conferences_order_independent:
  "(mset xs = mset ys
      \<and> (\<forall>a \<in> set xs. \<forall>b \<in> set xs. is_conferences_stat a \<and> is_conferences_stat b
            \<longrightarrow> elem_get a ''value'' = elem_get b ''value'')
      \<longrightarrow> get_conferences xs = get_conferences ys)
   \<and> ((\<forall>e \<in> set zs. \<not> is_conferences_stat e) \<longrightarrow> get_conferences zs = PyInt (- 1))"
proof (intro conjI impI)
  assume "\<forall>e \<in> set zs. \<not> is_conferences_stat e"
  then show "get_conferences zs = PyInt (- 1)" by (rule get_conferences_absent)
next
  assume h: "mset xs = mset ys
      \<and> (\<forall>a \<in> set xs. \<forall>b \<in> set xs. is_conferences_stat a \<and> is_conferences_stat b
            \<longrightarrow> elem_get a ''value'' = elem_get b ''value'')"
  then have sets: "set xs = set ys" by (metis set_mset_mset)
  show "get_conferences xs = get_conferences ys"
  proof (cases "\<exists>e \<in> set xs. is_conferences_stat e")
    case False
    with sets show ?thesis by (simp add: get_conferences_absent)
  next
    case True
    then obtain c where c: "c \<in> set xs" "is_conferences_stat c" by blast
    from h c have agree: "\<forall>e \<in> set xs. is_conferences_stat e \<longrightarrow> elem_get e ''value'' = elem_get c ''value''"
      by blast
    have "get_conferences xs = elem_get c ''value''"
      using agree True by (rule get_conferences_agree)
    moreover have "get_conferences ys = elem_get c ''value''"
      using agree True unfolding sets by (rule get_conferences_agree)
    ultimately show ?thesis by simp
  qed
qed

theorem get_conferences_order_independent_witness:
  "mset [stat_element ''threads'' ''7'', stat_element ''conferences'' ''3'']
     = mset [stat_element ''conferences'' ''3'', stat_element ''threads'' ''7'']
   \<and> get_conferences [stat_element ''threads'' ''7'', stat_element ''conferences'' ''3'']
       = get_conferences [stat_element ''conferences'' ''3'', stat_element ''threads'' ''7'']
   \<and> get_conferences [stat_element ''conferences'' ''3'', stat_element ''threads'' ''7'']
       = PyStr ''3''
   \<and> get_conferences [stat_element ''threads'' ''7''] = PyInt (- 1)"
  using get_conferences_order_independent
    [of "[stat_element ''threads'' ''7'', stat_element ''conferences'' ''3'']"
        "[stat_element ''conferences'' ''3'', stat_element ''threads'' ''7'']"
        "[stat_element ''threads'' ''7'']"]
  by (simp add: add_mset_commute)


lemma valueless_conferences_simps [simp]:
  "is_conferences_stat valueless_conferences"
  "attrib valueless_conferences ''value'' = None"
  "elem_get valueless_conferences ''value'' = PyNone"
  "get_conferences (valueless_conferences # es) = PyNone"
  by (simp_all add: valueless_conferences_def is_conferences_stat_def elem_get_def
        get_conferences_filter)


subsection \<open>The polling loop\<close>

lemma poll_loop_sleeps_mono: "sleeps st \<le> sleeps (snd (poll_loop replies st))"
proof (induction replies arbitrary: st)
  case Nil
  show ?case by simp
next
  case (Cons r replies)
  show ?case
  proof (cases r)
    case (Returns resp)
    have "sleeps (emit (Sleep 10) (log_count (get_conferences (colibri_stats resp)) (emit SendStats st)))
          \<le> sleeps (snd (poll_loop replies
               (emit (Sleep 10) (log_count (get_conferences (colibri_stats resp)) (emit SendStats st)))))"
      by (rule Cons.IH)
    with Returns show ?thesis by (simp add: Let_def)
  next
    case (Raises err)
    then show ?thesis by simp
  qed
qed

lemma poll_loop_polls_next:
  "replies \<noteq> [] \<Longrightarrow> polls st + 1 \<le> polls (snd (poll_loop replies st))"
proof (cases replies)
  case Nil
  assume "replies \<noteq> []"
  with Nil show ?thesis by simp
next
  case (Cons r rest)
  show ?thesis
  proof (cases r)
    case (Returns resp)
    have "polls (emit (Sleep 10) (log_count (get_conferences (colibri_stats resp)) (emit SendStats st)))
          \<le> polls (snd (poll_loop rest
               (emit (Sleep 10) (log_count (get_conferences (colibri_stats resp)) (emit SendStats st)))))"
      by (rule poll_loop_polls_mono)
    with Cons Returns show ?thesis by (simp add: Let_def)
  next
    case (Raises err)
    with Cons show ?thesis by simp
  qed
qed

lemma poll_loop_returns_break_iff:
  "fst (poll_loop (map Returns rs) st) = Break
     \<longleftrightarrow> (\<exists>r \<in> set rs. get_conferences (colibri_stats r) = PyStr ''0'')"
proof -
  let ?P = "\<lambda>r. get_conferences (colibri_stats r) \<noteq> PyStr ''0''"
  have "length (takeWhile ?P rs) < length rs \<longleftrightarrow> (\<exists>r \<in> set rs. \<not> ?P r)"
    by (induction rs) auto
  then show ?thesis
    using poll_loop_returns [of rs st] by auto
qed

lemma poll_loop_blocked_iff:
  "fst (poll_loop replies st) = Blocked
     \<longleftrightarrow> (\<forall>r \<in> set replies.
            \<exists>resp. r = Returns resp \<and> get_conferences (colibri_stats resp) \<noteq> PyStr ''0'')"
proof (induction replies arbitrary: st)
  case Nil
  show ?case by simp
next
  case (Cons r replies)
  show ?case
  proof (cases r)
    case (Raises err)
    then show ?thesis by simp
  next
    case (Returns resp)
    show ?thesis
    proof (cases "get_conferences (colibri_stats resp) = PyStr ''0''")
      case True
      with Returns show ?thesis by (simp add: Let_def)
    next
      case False
      with Returns show ?thesis
        using Cons.IH [of "emit (Sleep 10)
            (log_count (get_conferences (colibri_stats resp)) (emit SendStats st))"]
        by (simp add: Let_def)
    qed
  qed
qed

text \<open>
  A first poll answered with the count 5, then a stats query that raises, with an answer
  carrying the count 0 ready behind it: the second iteration is the last one, and no
  count equal to the string \<open>0\<close> was extracted.
\<close>

theorem poll_loop_raise_counterexample:
  "poll_loop [Returns (result_iq [stat_element ''conferences'' ''5'']),
              Raises (error_of ''cancel'' ''remote-server-timeout''),
              Returns (result_iq [stat_element ''conferences'' ''0''])] init_state
     = (Raised (error_of ''cancel'' ''remote-server-timeout''),
        \<lparr>exitCode = 0,
         trace = [SendStats, LogInfo ''There are 5 conferences in progress'', Sleep 10,
                  SendStats]\<rparr>)
   \<and> get_conferences (colibri_stats (result_iq [stat_element ''conferences'' ''5'']))
       \<noteq> PyStr ''0''"
  by (simp add: result_iq_def init_state_def emit_def log_count_def Let_def)

text \<open>
  Claim C1, as amended. An iteration of the polling loop whose stats query is answered
  is the last one (the loop breaks there, without a sleep and without looking at later
  answers) if and only if the extracted count is the string \<open>0\<close>; for every other
  extracted count, the integer \<open>-1\<close> of an absent counter included, the loop sleeps
  10 seconds and goes on with the next poll. An iteration whose stats query raises a
  stanza error is the last one too: nothing is extracted, nothing is logged and there is
  no sleep. So the loop is still polling after a sequence of replies exactly when each
  of them was an answer with a count other than the string \<open>0\<close>.
\<close>

theorem poll_loop_last_iteration:
  "(poll_loop (Returns resp # replies) st
      = (Break, log_count (get_conferences (colibri_stats resp)) (emit SendStats st))
     \<longleftrightarrow> get_conferences (colibri_stats resp) = PyStr ''0'')
   \<and> (get_conferences (colibri_stats resp) \<noteq> PyStr ''0'' \<longrightarrow>
        poll_loop (Returns resp # replies) st
          = poll_loop replies
              (emit (Sleep 10)
                (log_count (get_conferences (colibri_stats resp)) (emit SendStats st)))
        \<and> sleeps st + 1 \<le> sleeps (snd (poll_loop (Returns resp # replies) st))
        \<and> (replies \<noteq> [] \<longrightarrow>
              polls st + 2 \<le> polls (snd (poll_loop (Returns resp # replies) st))))
   \<and> (get_conferences (colibri_stats resp) = PyInt (- 1) \<longrightarrow>
        poll_loop (Returns resp # replies) st
          = poll_loop replies
              (emit (Sleep 10) (log_count (PyInt (- 1)) (emit SendStats st))))
   \<and> (fst (poll_loop (map Returns rs) st) = Break
        \<longleftrightarrow> (\<exists>r \<in> set rs. get_conferences (colibri_stats r) = PyStr ''0''))
   \<and> poll_loop (Raises err # replies) st = (Raised err, emit SendStats st)
   \<and> (fst (poll_loop all_replies st) = Blocked
        \<longleftrightarrow> (\<forall>r \<in> set all_replies.
               \<exists>answer. r = Returns answer
                 \<and> get_conferences (colibri_stats answer) \<noteq> PyStr ''0''))"
proof -
  let ?c = "get_conferences (colibri_stats resp)"
  let ?st2 = "log_count ?c (emit SendStats st)"
  let ?next = "poll_loop replies (emit (Sleep 10) ?st2)"
  have step: "poll_loop (Returns resp # replies) st = ?next" if "?c \<noteq> PyStr ''0''"
    using that by (rule poll_loop_nonzero)
  have slept: "sleeps st + 1 \<le> sleeps (snd ?next)"
    using poll_loop_sleeps_mono [of "emit (Sleep 10) ?st2" replies] by simp
  have polled: "polls st + 2 \<le> polls (snd ?next)" if "replies \<noteq> []"
    using poll_loop_polls_next [OF that, of "emit (Sleep 10) ?st2"] by simp
  have "sleeps (snd ?next) \<noteq> sleeps ?st2"
    using slept by simp
  then have differ: "?next \<noteq> (Break, ?st2)"
    by auto
  have last: "poll_loop (Returns resp # replies) st = (Break, ?st2) \<longleftrightarrow> ?c = PyStr ''0''"
  proof (cases "?c = PyStr ''0''")
    case True
    then show ?thesis by (simp add: Let_def)
  next
    case False
    with step differ show ?thesis by simp
  qed
  have sentinel: "poll_loop (Returns resp # replies) st
          = poll_loop replies (emit (Sleep 10) (log_count (PyInt (- 1)) (emit SendStats st)))"
    if "?c = PyInt (- 1)"
    using that by (simp add: Let_def)
  have raised: "poll_loop (Raises err # replies) st = (Raised err, emit SendStats st)"
    by simp
  show ?thesis
    using last step slept polled sentinel poll_loop_returns_break_iff [of rs st] raised
      poll_loop_blocked_iff [of all_replies st]
    by simp
qed

theorem poll_loop_last_iteration_witness:
  "poll_loop [Returns (result_iq [stat_element ''threads'' ''7'']),
              Returns (result_iq [stat_element ''conferences'' ''0'']),
              Returns (result_iq [stat_element ''conferences'' ''4''])] init_state
     = (Break,
        \<lparr>exitCode = 0,
         trace = [SendStats, LogInfo ''There are -1 conferences in progress'', Sleep 10,
                  SendStats, LogInfo ''There are 0 conferences in progress'']\<rparr>)
   \<and> get_conferences (colibri_stats (result_iq [stat_element ''threads'' ''7''])) = PyInt (- 1)
   \<and> get_conferences (colibri_stats (result_iq [stat_element ''conferences'' ''0''])) = PyStr ''0''
   \<and> poll_loop (Raises (error_of ''cancel'' ''remote-server-timeout'')
                 # [Returns (result_iq [stat_element ''conferences'' ''0''])]) init_state
       = (Raised (error_of ''cancel'' ''remote-server-timeout''),
          \<lparr>exitCode = 0, trace = [SendStats]\<rparr>)
   \<and> fst (poll_loop [Returns (result_iq [stat_element ''conferences'' ''4''])] init_state)
       = Blocked"
  using poll_loop_last_iteration
    [of "result_iq [stat_element ''threads'' ''7'']"
        "[Returns (result_iq [stat_element ''conferences'' ''0'']),
          Returns (result_iq [stat_element ''conferences'' ''4''])]"
        init_state "[]" "error_of ''cancel'' ''remote-server-timeout''"
        "[Returns (result_iq [stat_element ''conferences'' ''4''])]"]
    poll_loop_last_iteration
    [of "result_iq [stat_element ''conferences'' ''0'']"
        "[Returns (result_iq [stat_element ''conferences'' ''4''])]"
        "emit (Sleep 10) (log_count (PyInt (- 1)) (emit SendStats init_state))" "[]"
        "error_of ''cancel'' ''remote-server-timeout''" "[]"]
  by (simp add: result_iq_def init_state_def emit_def log_count_def str_int_minus_one Let_def)

subsection \<open>The handler and the main block\<close>

lemma exitCode_except_StanzaError:
  "exitCode (except_StanzaError accepted err st) =
     (if \<not> accepted \<and> etype err \<noteq> ''wait'' \<and> condition err \<noteq> ''service-unavailable''
      then 1 else exitCode st)"
  by (simp add: except_StanzaError_def)

lemma exit_writes_except_StanzaError:
  "exit_writes (except_StanzaError accepted err st) =
     (if \<not> accepted \<and> etype err \<noteq> ''wait'' \<and> condition err \<noteq> ''service-unavailable''
      then exit_writes st @ [1] else exit_writes st)"
  by (simp add: except_StanzaError_def exit_writes_def emit_def exit_writes_of_append)

lemma disconnects_except_StanzaError:
  "disconnects w (except_StanzaError accepted err st) = disconnects w st + (if w then 1 else 0)"
  by (simp add: except_StanzaError_def disconnects_def emit_def)

lemma polls_except_StanzaError: "polls (except_StanzaError accepted err st) = polls st"
  by (simp add: except_StanzaError_def polls_def emit_def)

lemma errors_logged_except_accepted:
  "errors_logged (except_StanzaError True err st) = errors_logged st"
  by (simp add: except_StanzaError_def)

lemma disconnected_emit_Disconnect: "disconnected (emit (Disconnect w) st)"
  by (simp add: disconnected_def emit_def)

lemma disconnected_except_StanzaError: "disconnected (except_StanzaError accepted err st)"
  by (simp add: except_StanzaError_def disconnected_emit_Disconnect)

lemma shutdown_focus_Raises:
  "shutdown_focus (Raises err) stats_replies st
     = (Returned, except_StanzaError False err (emit SendShutdown st))"
  by (simp add: shutdown_focus_def)

lemma shutdown_focus_accepted:
  "iq_type ack = ''result'' \<Longrightarrow>
   shutdown_focus (Returns ack) stats_replies st =
     (case poll_loop stats_replies (emit (LogInfo ''Shutdown accepted'') (emit SendShutdown st)) of
        (Break, st3) \<Rightarrow>
          (Returned, emit (Disconnect True) (emit (LogInfo ''End of shutdown procedure'') st3))
      | (Raised error, st3) \<Rightarrow> (Returned, except_StanzaError True error st3)
      | (Blocked, st3) \<Rightarrow> (Running, st3))"
  by (simp add: shutdown_focus_def)

lemma shutdown_focus_not_result:
  "iq_type resp \<noteq> ''result'' \<Longrightarrow>
   shutdown_focus (Returns resp) stats_replies st = (Returned, emit SendShutdown st)"
  by (simp add: shutdown_focus_def)

lemma main_options_given:
  "server opts = Some srv \<Longrightarrow> jid opts = Some j \<Longrightarrow> password opts = Some p \<Longrightarrow>
   focus opts = Some f \<Longrightarrow>
   main opts connect_ok shutdown_reply stats_replies
     = connect_and_run srv connect_ok shutdown_reply stats_replies init_state"
  by (simp add: main_def)

text \<open>
  Claim C8. When the shutdown request is accepted and the successive stats polls give
  the counts 5, 2, 0, the run issues exactly three polls with exactly two sleeps of 10
  seconds between them, disconnects and exits with code 0 (further answers are never
  asked for). When the first poll gives 0, exactly one poll is issued, with no sleep, and
  the process exits with code 0.
\<close>

theorem scenario_drain:
  "server opts = Some srv \<and> jid opts = Some j \<and> password opts = Some p \<and> focus opts = Some f
   \<and> iq_type ack = ''result'' \<longrightarrow>
   (get_conferences (colibri_stats r1) = PyStr ''5''
    \<and> get_conferences (colibri_stats r2) = PyStr ''2''
    \<and> get_conferences (colibri_stats r3) = PyStr ''0'' \<longrightarrow>
      main opts True (Returns ack) (Returns r1 # Returns r2 # Returns r3 # rest)
        = (Some 0,
           \<lparr>exitCode = 0,
            trace = [Connect srv 5222, SendShutdown, LogInfo ''Shutdown accepted'',
                     SendStats, LogInfo ''There are 5 conferences in progress'', Sleep 10,
                     SendStats, LogInfo ''There are 2 conferences in progress'', Sleep 10,
                     SendStats, LogInfo ''There are 0 conferences in progress'',
                     LogInfo ''End of shutdown procedure'', Disconnect True,
                     LogInfo ''Done'']\<rparr>)
      \<and> polls (snd (main opts True (Returns ack) (Returns r1 # Returns r2 # Returns r3 # rest))) = 3
      \<and> sleeps (snd (main opts True (Returns ack) (Returns r1 # Returns r2 # Returns r3 # rest))) = 2)
   \<and> (get_conferences (colibri_stats r1) = PyStr ''0'' \<longrightarrow>
      main opts True (Returns ack) (Returns r1 # rest)
        = (Some 0,
           \<lparr>exitCode = 0,
            trace = [Connect srv 5222, SendShutdown, LogInfo ''Shutdown accepted'',
                     SendStats, LogInfo ''There are 0 conferences in progress'',
                     LogInfo ''End of shutdown procedure'', Disconnect True,
                     LogInfo ''Done'']\<rparr>)
      \<and> polls (snd (main opts True (Returns ack) (Returns r1 # rest))) = 1
      \<and> sleeps (snd (main opts True (Returns ack) (Returns r1 # rest))) = 0)"
  by (simp add: main_def connect_and_run_def process_def shutdown_focus_def Let_def
        init_state_def emit_def log_count_def disconnected_def polls_def sleeps_def)

theorem scenario_drain_witness:
  "main \<lparr>server = Some ''xmpp.example.org'', jid = Some ''admin@example.org'',
         password = Some ''secret'', focus = Some ''focus.example.org''\<rparr>
      True (Returns (result_iq []))
      [Returns (result_iq [stat_element ''conferences'' ''5'']),
       Returns (result_iq [stat_element ''conferences'' ''2'']),
       Returns (result_iq [stat_element ''conferences'' ''0''])]
     = (Some 0,
        \<lparr>exitCode = 0,
         trace = [Connect ''xmpp.example.org'' 5222, SendShutdown, LogInfo ''Shutdown accepted'',
                  SendStats, LogInfo ''There are 5 conferences in progress'', Sleep 10,
                  SendStats, LogInfo ''There are 2 conferences in progress'', Sleep 10,
                  SendStats, LogInfo ''There are 0 conferences in progress'',
                  LogInfo ''End of shutdown procedure'', Disconnect True,
                  LogInfo ''Done'']\<rparr>)
   \<and> main \<lparr>server = Some ''xmpp.example.org'', jid = Some ''admin@example.org'',
         password = Some ''secret'', focus = Some ''focus.example.org''\<rparr>
      True (Returns (result_iq []))
      [Returns (result_iq [stat_element ''conferences'' ''0''])]
     = (Some 0,
        \<lparr>exitCode = 0,
         trace = [Connect ''xmpp.example.org'' 5222, SendShutdown, LogInfo ''Shutdown accepted'',
                  SendStats, LogInfo ''There are 0 conferences in progress'',
                  LogInfo ''End of shutdown procedure'', Disconnect True,
                  LogInfo ''Done'']\<rparr>)"
  using scenario_drain
    [of "\<lparr>server = Some ''xmpp.example.org'', jid = Some ''admin@example.org'',
         password = Some ''secret'', focus = Some ''focus.example.org''\<rparr>"
        "''xmpp.example.org''" "''admin@example.org''" "''secret''" "''focus.example.org''"
        "result_iq []"
        "result_iq [stat_element ''conferences'' ''5'']"
        "result_iq [stat_element ''conferences'' ''2'']"
        "result_iq [stat_element ''conferences'' ''0'']" "[]"]
    scenario_drain
    [of "\<lparr>server = Some ''xmpp.example.org'', jid = Some ''admin@example.org'',
         password = Some ''secret'', focus = Some ''focus.example.org''\<rparr>"
        "''xmpp.example.org''" "''admin@example.org''" "''secret''" "''focus.example.org''"
        "result_iq []"
        "result_iq [stat_element ''conferences'' ''0'']"
        "result_iq []" "result_iq []" "[]"]
  by (simp add: result_iq_def)

text \<open>
  Claim C6. When the shutdown request is rejected with an error of type \<open>wait\<close> or
  of condition \<open>service-unavailable\<close>, no stats poll is issued, the transport is
  disconnected and the process exits with code 0. When it is rejected with any other
  error (for instance \<open>not-authorized\<close>), no stats poll is issued, the transport is
  disconnected and the process exits with code 1.
\<close>

theorem shutdown_rejected:
  "server opts = Some srv \<and> jid opts = Some j \<and> password opts = Some p \<and> focus opts = Some f
   \<longrightarrow>
   main opts True (Raises err) stats_replies
     = (if etype err = ''wait'' \<or> condition err = ''service-unavailable''
        then (Some 0,
              \<lparr>exitCode = 0,
               trace = [Connect srv 5222, SendShutdown, Disconnect True, LogInfo ''Done'']\<rparr>)
        else (Some 1,
              \<lparr>exitCode = 1,
               trace = [Connect srv 5222, SendShutdown, SetExitCode 1,
                        LogError ''There was an error sending shutdown request.'',
                        Disconnect True, LogInfo ''Done'']\<rparr>))
   \<and> polls (snd (main opts True (Raises err) stats_replies)) = 0
   \<and> disconnects True (snd (main opts True (Raises err) stats_replies)) = 1"
  by (simp add: main_def connect_and_run_def process_def shutdown_focus_def
        except_StanzaError_def Let_def init_state_def emit_def disconnected_def
        polls_def disconnects_def)

theorem shutdown_rejected_witness:
  "main \<lparr>server = Some ''xmpp.example.org'', jid = Some ''admin@example.org'',
         password = Some ''secret'', focus = Some ''focus.example.org''\<rparr>
      True (Raises (error_of ''wait'' ''resource-constraint''))
      [Returns (result_iq [stat_element ''conferences'' ''0''])]
     = (Some 0,
        \<lparr>exitCode = 0,
         trace = [Connect ''xmpp.example.org'' 5222, SendShutdown, Disconnect True,
                  LogInfo ''Done'']\<rparr>)
   \<and> main \<lparr>server = Some ''xmpp.example.org'', jid = Some ''admin@example.org'',
         password = Some ''secret'', focus = Some ''focus.example.org''\<rparr>
      True (Raises (error_of ''cancel'' ''service-unavailable''))
      [Returns (result_iq [stat_element ''conferences'' ''0''])]
     = (Some 0,
        \<lparr>exitCode = 0,
         trace = [Connect ''xmpp.example.org'' 5222, SendShutdown, Disconnect True,
                  LogInfo ''Done'']\<rparr>)
   \<and> main \<lparr>server = Some ''xmpp.example.org'', jid = Some ''admin@example.org'',
         password = Some ''secret'', focus = Some ''focus.example.org''\<rparr>
      True (Raises (error_of ''auth'' ''not-authorized''))
      [Returns (result_iq [stat_element ''conferences'' ''0''])]
     = (Some 1,
        \<lparr>exitCode = 1,
         trace = [Connect ''xmpp.example.org'' 5222, SendShutdown, SetExitCode 1,
                  LogError ''There was an error sending shutdown request.'',
                  Disconnect True, LogInfo ''Done'']\<rparr>)"
  using shutdown_rejected
    [of "\<lparr>server = Some ''xmpp.example.org'', jid = Some ''admin@example.org'',
         password = Some ''secret'', focus = Some ''focus.example.org''\<rparr>"
        "''xmpp.example.org''" "''admin@example.org''" "''secret''" "''focus.example.org''"
        "error_of ''wait'' ''resource-constraint''"
        "[Returns (result_iq [stat_element ''conferences'' ''0''])]"]
    shutdown_rejected
    [of "\<lparr>server = Some ''xmpp.example.org'', jid = Some ''admin@example.org'',
         password = Some ''secret'', focus = Some ''focus.example.org''\<rparr>"
        "''xmpp.example.org''" "''admin@example.org''" "''secret''" "''focus.example.org''"
        "error_of ''cancel'' ''service-unavailable''"
        "[Returns (result_iq [stat_element ''conferences'' ''0''])]"]
    shutdown_rejected
    [of "\<lparr>server = Some ''xmpp.example.org'', jid = Some ''admin@example.org'',
         password = Some ''secret'', focus = Some ''focus.example.org''\<rparr>"
        "''xmpp.example.org''" "''admin@example.org''" "''secret''" "''focus.example.org''"
        "error_of ''auth'' ''not-authorized''"
        "[Returns (result_iq [stat_element ''conferences'' ''0''])]"]
  by (simp add: error_of_def)

lemma exitCode_shutdown_focus:
  "exitCode (snd (shutdown_focus shutdown_reply stats_replies st)) =
     (case shutdown_reply of
        Raises err \<Rightarrow>
          if etype err \<noteq> ''wait'' \<and> condition err \<noteq> ''service-unavailable'' then 1
          else exitCode st
      | Returns resp \<Rightarrow> exitCode st)"
proof (cases shutdown_reply)
  case (Raises err)
  then show ?thesis
    by (simp add: shutdown_focus_Raises exitCode_except_StanzaError)
next
  case (Returns resp)
  show ?thesis
  proof (cases "iq_type resp = ''result''")
    case False
    with Returns show ?thesis by (simp add: shutdown_focus_not_result)
  next
    case True
    let ?st2 = "emit (LogInfo ''Shutdown accepted'') (emit SendShutdown st)"
    have "exitCode (snd (poll_loop stats_replies ?st2)) = exitCode st"
      by (simp add: poll_loop_exitCode)
    then show ?thesis
      using Returns True
      by (cases "poll_loop stats_replies ?st2")
         (auto simp: shutdown_focus_accepted exitCode_except_StanzaError split: loop_exit.splits)
  qed
qed

lemma exit_writes_shutdown_focus:
  "exit_writes (snd (shutdown_focus shutdown_reply stats_replies st)) =
     (case shutdown_reply of
        Raises err \<Rightarrow>
          if etype err \<noteq> ''wait'' \<and> condition err \<noteq> ''service-unavailable''
          then exit_writes st @ [1] else exit_writes st
      | Returns resp \<Rightarrow> exit_writes st)"
proof (cases shutdown_reply)
  case (Raises err)
  then show ?thesis
    by (simp add: shutdown_focus_Raises exit_writes_except_StanzaError)
next
  case (Returns resp)
  show ?thesis
  proof (cases "iq_type resp = ''result''")
    case False
    with Returns show ?thesis by (simp add: shutdown_focus_not_result)
  next
    case True
    let ?st2 = "emit (LogInfo ''Shutdown accepted'') (emit SendShutdown st)"
    have "exit_writes (snd (poll_loop stats_replies ?st2)) = exit_writes st"
      by (simp add: poll_loop_exit_writes)
    then show ?thesis
      using Returns True
      by (cases "poll_loop stats_replies ?st2")
         (auto simp: shutdown_focus_accepted exit_writes_except_StanzaError split: loop_exit.splits)
  qed
qed

lemma snd_process: "snd (process a b st) = snd (shutdown_focus a b st)"
  by (simp add: process_def split: prod.splits status.splits)

lemma snd_connect_and_run:
  "snd (connect_and_run srv connect_ok a b st) =
     (if connect_ok
      then (case process a b (emit (Connect srv 5222) st) of
              (Returned, st2) \<Rightarrow> emit (LogInfo ''Done'') st2
            | (Running, st2) \<Rightarrow> st2)
      else emit (LogError ''Unable to connect.'') (emit (Connect srv 5222) st))"
  by (simp add: connect_and_run_def Let_def split: prod.splits status.splits)

lemma exitCode_connect_and_run:
  "exitCode (snd (connect_and_run srv connect_ok a b st)) =
     (if connect_ok then exitCode (snd (shutdown_focus a b (emit (Connect srv 5222) st)))
      else exitCode st)"
proof (cases connect_ok)
  case False
  then show ?thesis by (simp add: snd_connect_and_run)
next
  case True
  obtain s st2 where p: "process a b (emit (Connect srv 5222) st) = (s, st2)"
    by (cases "process a b (emit (Connect srv 5222) st)")
  then have "st2 = snd (shutdown_focus a b (emit (Connect srv 5222) st))"
    using snd_process [of a b "emit (Connect srv 5222) st"] by simp
  with True p show ?thesis
    by (cases s) (simp_all add: snd_connect_and_run)
qed

lemma exit_writes_connect_and_run:
  "exit_writes (snd (connect_and_run srv connect_ok a b st)) =
     (if connect_ok then exit_writes (snd (shutdown_focus a b (emit (Connect srv 5222) st)))
      else exit_writes st)"
proof (cases connect_ok)
  case False
  then show ?thesis by (simp add: snd_connect_and_run)
next
  case True
  obtain s st2 where p: "process a b (emit (Connect srv 5222) st) = (s, st2)"
    by (cases "process a b (emit (Connect srv 5222) st)")
  then have "st2 = snd (shutdown_focus a b (emit (Connect srv 5222) st))"
    using snd_process [of a b "emit (Connect srv 5222) st"] by simp
  with True p show ?thesis
    by (cases s) (simp_all add: snd_connect_and_run)
qed

lemma fst_connect_and_run:
  "fst (connect_and_run srv connect_ok a b st) = Some code \<Longrightarrow>
   code = exitCode (snd (connect_and_run srv connect_ok a b st))"
  by (auto simp: connect_and_run_def Let_def split: prod.splits status.splits if_splits)

lemma init_state_simps [simp]:
  "exitCode init_state = 0" "trace init_state = []" "exit_writes init_state = []"
  by (simp_all add: init_state_def exit_writes_def)

lemma exitCode_main:
  "exitCode (snd (main opts connect_ok shutdown_reply stats_replies)) =
     (if server opts \<noteq> None \<and> jid opts \<noteq> None \<and> password opts \<noteq> None \<and> focus opts \<noteq> None
         \<and> connect_ok
         \<and> (\<exists>err. shutdown_reply = Raises err \<and> etype err \<noteq> ''wait''
                \<and> condition err \<noteq> ''service-unavailable'')
      then 1 else 0)"
proof -
  have run: "exitCode (snd (connect_and_run srv connect_ok shutdown_reply stats_replies init_state)) =
     (if connect_ok
         \<and> (\<exists>err. shutdown_reply = Raises err \<and> etype err \<noteq> ''wait''
                \<and> condition err \<noteq> ''service-unavailable'')
      then 1 else 0)" for srv
    by (cases shutdown_reply)
       (simp_all add: exitCode_connect_and_run exitCode_shutdown_focus)
  show ?thesis
    by (cases "server opts"; cases "jid opts"; cases "password opts"; cases "focus opts")
       (simp_all add: main_def run)
qed

lemma exit_writes_main:
  "exit_writes (snd (main opts connect_ok shutdown_reply stats_replies)) =
     (if exitCode (snd (main opts connect_ok shutdown_reply stats_replies)) = 1 then [1] else [])"
proof -
  have run: "exit_writes (snd (connect_and_run srv connect_ok shutdown_reply stats_replies init_state)) =
     (if connect_ok
         \<and> (\<exists>err. shutdown_reply = Raises err \<and> etype err \<noteq> ''wait''
                \<and> condition err \<noteq> ''service-unavailable'')
      then [1] else [])" for srv
    by (cases shutdown_reply)
       (simp_all add: exit_writes_connect_and_run exit_writes_shutdown_focus)
  have "exit_writes (snd (main opts connect_ok shutdown_reply stats_replies)) =
     (if server opts \<noteq> None \<and> jid opts \<noteq> None \<and> password opts \<noteq> None \<and> focus opts \<noteq> None
         \<and> connect_ok
         \<and> (\<exists>err. shutdown_reply = Raises err \<and> etype err \<noteq> ''wait''
                \<and> condition err \<noteq> ''service-unavailable'')
      then [1] else [])"
    by (cases "server opts"; cases "jid opts"; cases "password opts"; cases "focus opts")
       (simp_all add: main_def run)
  then show ?thesis by (simp add: exitCode_main)
qed

text \<open>
  Claim C7. In a run that reaches the connection attempt (the four required options are
  given), a failed connection is reported by one error log line only and the process
  exits with code 0. The global \<^verbatim>\<open>exitCode\<close> is nonzero at the end of a run only
  when the connection was made and the shutdown request raised a stanza error that is
  neither of type \<open>wait\<close> nor of condition \<open>service-unavailable\<close>, and so is
  the exit code of a run that reaches the connection attempt.
\<close>

theorem connect_failure_exits_zero:
  "(server opts = Some srv \<and> jid opts = Some j \<and> password opts = Some p \<and> focus opts = Some f
    \<longrightarrow>
      main opts False shutdown_reply stats_replies
        = (Some 0,
           \<lparr>exitCode = 0,
            trace = [Connect srv 5222, LogError ''Unable to connect.'']\<rparr>)
      \<and> (\<forall>code. fst (main opts connect_ok shutdown_reply stats_replies) = Some code \<and> code \<noteq> 0
            \<longrightarrow> connect_ok
                \<and> (\<exists>err. shutdown_reply = Raises err \<and> etype err \<noteq> ''wait''
                       \<and> condition err \<noteq> ''service-unavailable'')))
   \<and> (exitCode (snd (main opts connect_ok shutdown_reply stats_replies)) \<noteq> 0
        \<longrightarrow> connect_ok
            \<and> (\<exists>err. shutdown_reply = Raises err \<and> etype err \<noteq> ''wait''
                   \<and> condition err \<noteq> ''service-unavailable''))"
proof (intro conjI impI allI)
  assume "exitCode (snd (main opts connect_ok shutdown_reply stats_replies)) \<noteq> 0"
  then show "connect_ok" 
    and "\<exists>err. shutdown_reply = Raises err \<and> etype err \<noteq> ''wait''
                   \<and> condition err \<noteq> ''service-unavailable''"
    by (simp_all add: exitCode_main split: if_splits)
next
  assume o: "server opts = Some srv \<and> jid opts = Some j \<and> password opts = Some p
             \<and> focus opts = Some f"
  then show "main opts False shutdown_reply stats_replies
        = (Some 0, \<lparr>exitCode = 0, trace = [Connect srv 5222, LogError ''Unable to connect.'']\<rparr>)"
    by (simp add: main_def connect_and_run_def Let_def init_state_def emit_def)
  fix code
  assume c: "fst (main opts connect_ok shutdown_reply stats_replies) = Some code \<and> code \<noteq> 0"
  from o have m: "main opts connect_ok shutdown_reply stats_replies
      = connect_and_run srv connect_ok shutdown_reply stats_replies init_state"
    by (simp add: main_options_given)
  from c have "code = exitCode (snd (main opts connect_ok shutdown_reply stats_replies))"
    unfolding m by (simp add: fst_connect_and_run)
  with c have nz: "exitCode (snd (main opts connect_ok shutdown_reply stats_replies)) \<noteq> 0"
    by simp
  then show "connect_ok"
    by (simp add: exitCode_main split: if_splits)
  from nz show "\<exists>err. shutdown_reply = Raises err \<and> etype err \<noteq> ''wait''
                   \<and> condition err \<noteq> ''service-unavailable''"
    by (simp add: exitCode_main split: if_splits)
qed

theorem connect_failure_exits_zero_witness:
  "main \<lparr>server = Some ''xmpp.example.org'', jid = Some ''admin@example.org'',
         password = Some ''secret'', focus = Some ''focus.example.org''\<rparr>
      False (Raises (error_of ''auth'' ''not-authorized''))
      [Returns (result_iq [stat_element ''conferences'' ''0''])]
     = (Some 0,
        \<lparr>exitCode = 0,
         trace = [Connect ''xmpp.example.org'' 5222, LogError ''Unable to connect.'']\<rparr>)
   \<and> fst (main \<lparr>server = Some ''xmpp.example.org'', jid = Some ''admin@example.org'',
         password = Some ''secret'', focus = Some ''focus.example.org''\<rparr>
      True (Raises (error_of ''auth'' ''not-authorized'')) []) = Some 1
   \<and> etype (error_of ''auth'' ''not-authorized'') \<noteq> ''wait''
   \<and> condition (error_of ''auth'' ''not-authorized'') \<noteq> ''service-unavailable''"
  using connect_failure_exits_zero
    [of "\<lparr>server = Some ''xmpp.example.org'', jid = Some ''admin@example.org'',
         password = Some ''secret'', focus = Some ''focus.example.org''\<rparr>"
        "''xmpp.example.org''" "''admin@example.org''" "''secret''" "''focus.example.org''"
        "Raises (error_of ''auth'' ''not-authorized'')"
        "[Returns (result_iq [stat_element ''conferences'' ''0''])]" True]
  by (simp add: error_of_def main_def connect_and_run_def process_def shutdown_focus_def
        except_StanzaError_def Let_def init_state_def emit_def disconnected_def)

subsection \<open>The exit code\<close>

text \<open>
  Claim C2. The global \<^verbatim>\<open>exitCode\<close> starts at 0. At the end of every run it is
  0 or 1, and it has been assigned at most once, the value 1. It is 1 exactly when the
  shutdown request raised a stanza error that is neither of type \<open>wait\<close> nor of
  condition \<open>service-unavailable\<close> (in a run that connected). The handler never
  sets it back: from a state where it is 1 the handler ends with 1, and in general it
  ends with the value it started with or with 1.
\<close>

theorem exitCode_invariant:
  "exitCode init_state = 0
   \<and> (exitCode (snd (main opts connect_ok shutdown_reply stats_replies)) = 0
        \<and> exit_writes (snd (main opts connect_ok shutdown_reply stats_replies)) = []
      \<or> exitCode (snd (main opts connect_ok shutdown_reply stats_replies)) = 1
        \<and> exit_writes (snd (main opts connect_ok shutdown_reply stats_replies)) = [1])
   \<and> (exitCode (snd (main opts connect_ok shutdown_reply stats_replies)) = 1
        \<longleftrightarrow> server opts \<noteq> None \<and> jid opts \<noteq> None \<and> password opts \<noteq> None
            \<and> focus opts \<noteq> None \<and> connect_ok
            \<and> (\<exists>err. shutdown_reply = Raises err \<and> etype err \<noteq> ''wait''
                   \<and> condition err \<noteq> ''service-unavailable''))
   \<and> (exitCode (snd (shutdown_focus shutdown_reply stats_replies st)) = exitCode st
      \<or> exitCode (snd (shutdown_focus shutdown_reply stats_replies st)) = 1)
   \<and> (exitCode st = 1 \<longrightarrow>
        exitCode (snd (shutdown_focus shutdown_reply stats_replies st)) = 1)
   \<and> (exitCode (snd (shutdown_focus shutdown_reply stats_replies st)) \<noteq> exitCode st \<longrightarrow>
        (\<exists>err. shutdown_reply = Raises err \<and> etype err \<noteq> ''wait''
               \<and> condition err \<noteq> ''service-unavailable''))"
proof -
  have handler: "exitCode (snd (shutdown_focus shutdown_reply stats_replies st)) =
     (case shutdown_reply of
        Raises err \<Rightarrow>
          if etype err \<noteq> ''wait'' \<and> condition err \<noteq> ''service-unavailable'' then 1
          else exitCode st
      | Returns resp \<Rightarrow> exitCode st)"
    by (rule exitCode_shutdown_focus)
  have a: "exitCode (snd (shutdown_focus shutdown_reply stats_replies st)) = exitCode st
      \<or> exitCode (snd (shutdown_focus shutdown_reply stats_replies st)) = 1"
    unfolding handler by (cases shutdown_reply) simp_all
  have b: "exitCode (snd (shutdown_focus shutdown_reply stats_replies st)) = 1"
    if "exitCode st = 1"
    using that unfolding handler by (cases shutdown_reply) simp_all
  have c: "\<exists>err. shutdown_reply = Raises err \<and> etype err \<noteq> ''wait''
               \<and> condition err \<noteq> ''service-unavailable''"
    if "exitCode (snd (shutdown_focus shutdown_reply stats_replies st)) \<noteq> exitCode st"
    using that unfolding handler by (cases shutdown_reply) (simp_all split: if_splits)
  have d: "exitCode (snd (main opts connect_ok shutdown_reply stats_replies)) = 0
        \<and> exit_writes (snd (main opts connect_ok shutdown_reply stats_replies)) = []
      \<or> exitCode (snd (main opts connect_ok shutdown_reply stats_replies)) = 1
        \<and> exit_writes (snd (main opts connect_ok shutdown_reply stats_replies)) = [1]"
    unfolding exit_writes_main by (simp add: exitCode_main)
  have e: "exitCode (snd (main opts connect_ok shutdown_reply stats_replies)) = 1
        \<longleftrightarrow> server opts \<noteq> None \<and> jid opts \<noteq> None \<and> password opts \<noteq> None
            \<and> focus opts \<noteq> None \<and> connect_ok
            \<and> (\<exists>err. shutdown_reply = Raises err \<and> etype err \<noteq> ''wait''
                   \<and> condition err \<noteq> ''service-unavailable'')"
    by (simp add: exitCode_main)
  show ?thesis
    using a b c d e by (intro conjI impI) simp_all
qed

theorem exitCode_invariant_witness:
  "exitCode (snd (main \<lparr>server = Some ''xmpp.example.org'', jid = Some ''admin@example.org'',
         password = Some ''secret'', focus = Some ''focus.example.org''\<rparr>
      True (Raises (error_of ''auth'' ''not-authorized'')) [])) = 1
   \<and> exit_writes (snd (main \<lparr>server = Some ''xmpp.example.org'', jid = Some ''admin@example.org'',
         password = Some ''secret'', focus = Some ''focus.example.org''\<rparr>
      True (Raises (error_of ''auth'' ''not-authorized'')) [])) = [1]
   \<and> exitCode (snd (shutdown_focus (Raises (error_of ''auth'' ''not-authorized'')) []
                     \<lparr>exitCode = 1, trace = []\<rparr>)) = 1
   \<and> exitCode (snd (shutdown_focus (Raises (error_of ''wait'' ''resource-constraint'')) []
                     \<lparr>exitCode = 0, trace = []\<rparr>)) = 0"
  using exitCode_invariant
    [of "\<lparr>server = Some ''xmpp.example.org'', jid = Some ''admin@example.org'',
         password = Some ''secret'', focus = Some ''focus.example.org''\<rparr>"
        True "Raises (error_of ''auth'' ''not-authorized'')" "[]"
        "\<lparr>exitCode = 1, trace = []\<rparr>"]
    exitCode_invariant
    [of "\<lparr>server = Some ''xmpp.example.org'', jid = Some ''admin@example.org'',
         password = Some ''secret'', focus = Some ''focus.example.org''\<rparr>"
        True "Raises (error_of ''wait'' ''resource-constraint'')" "[]"
        "\<lparr>exitCode = 0, trace = []\<rparr>"]
  by (simp add: error_of_def main_def connect_and_run_def process_def shutdown_focus_def
        except_StanzaError_def Let_def emit_def disconnected_def exit_writes_def init_state_def)

subsection \<open>Errors while polling\<close>

lemma poll_loop_errors_logged:
  "errors_logged (snd (poll_loop replies st)) = errors_logged st"
proof (induction replies arbitrary: st)
  case Nil
  show ?case by simp
next
  case (Cons r replies)
  show ?case
  proof (cases r)
    case (Returns resp)
    with Cons show ?thesis by (simp add: Let_def)
  next
    case (Raises err)
    then show ?thesis by simp
  qed
qed

lemma poll_loop_raises_rest:
  "\<forall>r \<in> set pre. get_conferences (colibri_stats r) \<noteq> PyStr ''0'' \<Longrightarrow>
   poll_loop (map Returns pre @ Raises err # rest) st
     = poll_loop (map Returns pre @ [Raises err]) st"
proof (induction pre arbitrary: st)
  case Nil
  show ?case by simp
next
  case (Cons r pre)
  then have nz: "get_conferences (colibri_stats r) \<noteq> PyStr ''0''"
    and rest: "\<forall>r \<in> set pre. get_conferences (colibri_stats r) \<noteq> PyStr ''0''"
    by simp_all
  show ?case
    using nz Cons.IH [OF rest] by (simp add: Let_def)
qed

lemma poll_loop_raises_counts:
  "\<forall>r \<in> set pre. get_conferences (colibri_stats r) \<noteq> PyStr ''0'' \<Longrightarrow>
   fst (poll_loop (map Returns pre @ Raises err # rest) st) = Raised err
   \<and> polls (snd (poll_loop (map Returns pre @ Raises err # rest) st))
       = polls st + length pre + 1
   \<and> sleeps (snd (poll_loop (map Returns pre @ Raises err # rest) st))
       = sleeps st + length pre"
proof (induction pre arbitrary: st)
  case Nil
  show ?case by simp
next
  case (Cons r pre)
  then have nz: "get_conferences (colibri_stats r) \<noteq> PyStr ''0''"
    and rest: "\<forall>r \<in> set pre. get_conferences (colibri_stats r) \<noteq> PyStr ''0''"
    by simp_all
  show ?case
    using nz Cons.IH [OF rest,
        of "emit (Sleep 10) (log_count (get_conferences (colibri_stats r)) (emit SendStats st))"]
    by (simp add: Let_def)
qed

lemma shutdown_focus_poll_raises:
  assumes "iq_type ack = ''result''"
    and "fst (poll_loop stats_replies
               (emit (LogInfo ''Shutdown accepted'') (emit SendShutdown st))) = Raised err"
  shows "shutdown_focus (Returns ack) stats_replies st
     = (Returned,
        except_StanzaError True err
          (snd (poll_loop stats_replies
                 (emit (LogInfo ''Shutdown accepted'') (emit SendShutdown st)))))"
  using assms
  by (cases "poll_loop stats_replies (emit (LogInfo ''Shutdown accepted'') (emit SendShutdown st))")
     (simp add: shutdown_focus_accepted)

text \<open>
  A stanza error on the first stats query, with an answer carrying the count 0 ready
  behind it: one poll is issued, the loop is over, the transport is disconnected.
\<close>

theorem polling_error_counterexample:
  "shutdown_focus (Returns (result_iq []))
      [Raises (error_of ''cancel'' ''remote-server-timeout''),
       Returns (result_iq [stat_element ''conferences'' ''0''])]
      init_state
     = (Returned,
        \<lparr>exitCode = 0,
         trace = [SendShutdown, LogInfo ''Shutdown accepted'', SendStats, Disconnect True]\<rparr>)
   \<and> polls (snd (shutdown_focus (Returns (result_iq []))
        [Raises (error_of ''cancel'' ''remote-server-timeout''),
         Returns (result_iq [stat_element ''conferences'' ''0''])]
        init_state)) = 1"
  by (simp add: shutdown_focus_def except_StanzaError_def result_iq_def error_of_def
        init_state_def emit_def polls_def)

text \<open>
  Claim C3, as amended. A stanza error raised by a stats query during the polling loop
  (after the shutdown request was accepted) is not fatal and is never escalated: the exit
  code keeps its value, it is not assigned and no error is logged. It ends the polling
  loop: no further poll is issued, whatever answers would have followed, the transport
  is disconnected once and the handler returns.
\<close>

theorem polling_error_ends_loop:
  "iq_type ack = ''result''
   \<and> (\<forall>r \<in> set pre. get_conferences (colibri_stats r) \<noteq> PyStr ''0'') \<longrightarrow>
     shutdown_focus (Returns ack) (map Returns pre @ Raises err # rest) st
       = shutdown_focus (Returns ack) (map Returns pre @ [Raises err]) st
     \<and> fst (shutdown_focus (Returns ack) (map Returns pre @ Raises err # rest) st) = Returned
     \<and> exitCode (snd (shutdown_focus (Returns ack) (map Returns pre @ Raises err # rest) st))
         = exitCode st
     \<and> exit_writes (snd (shutdown_focus (Returns ack) (map Returns pre @ Raises err # rest) st))
         = exit_writes st
     \<and> errors_logged (snd (shutdown_focus (Returns ack) (map Returns pre @ Raises err # rest) st))
         = errors_logged st
     \<and> polls (snd (shutdown_focus (Returns ack) (map Returns pre @ Raises err # rest) st))
         = polls st + length pre + 1
     \<and> disconnects True
          (snd (shutdown_focus (Returns ack) (map Returns pre @ Raises err # rest) st))
         = disconnects True st + 1"
proof (intro impI)
  assume h: "iq_type ack = ''result''
   \<and> (\<forall>r \<in> set pre. get_conferences (colibri_stats r) \<noteq> PyStr ''0'')"
  let ?st2 = "emit (LogInfo ''Shutdown accepted'') (emit SendShutdown st)"
  let ?rs = "map Returns pre @ Raises err # rest"
  from h have loop:
    "poll_loop ?rs ?st2 = poll_loop (map Returns pre @ [Raises err]) ?st2"
    "fst (poll_loop ?rs ?st2) = Raised err"
    "polls (snd (poll_loop ?rs ?st2)) = polls ?st2 + length pre + 1"
    using poll_loop_raises_rest [of pre err rest ?st2]
      poll_loop_raises_counts [of pre err rest ?st2] by simp_all
  from h loop(2) have run: "shutdown_focus (Returns ack) ?rs st
      = (Returned, except_StanzaError True err (snd (poll_loop ?rs ?st2)))"
    by (simp add: shutdown_focus_poll_raises)
  from h loop(1,2) have run': "shutdown_focus (Returns ack) (map Returns pre @ [Raises err]) st
      = (Returned, except_StanzaError True err (snd (poll_loop ?rs ?st2)))"
    by (simp add: shutdown_focus_poll_raises)
  show "shutdown_focus (Returns ack) ?rs st
       = shutdown_focus (Returns ack) (map Returns pre @ [Raises err]) st
     \<and> fst (shutdown_focus (Returns ack) ?rs st) = Returned
     \<and> exitCode (snd (shutdown_focus (Returns ack) ?rs st)) = exitCode st
     \<and> exit_writes (snd (shutdown_focus (Returns ack) ?rs st)) = exit_writes st
     \<and> errors_logged (snd (shutdown_focus (Returns ack) ?rs st)) = errors_logged st
     \<and> polls (snd (shutdown_focus (Returns ack) ?rs st)) = polls st + length pre + 1
     \<and> disconnects True (snd (shutdown_focus (Returns ack) ?rs st)) = disconnects True st + 1"
    unfolding run run'
    by (simp add: exitCode_except_StanzaError exit_writes_except_StanzaError
          errors_logged_except_accepted polls_except_StanzaError disconnects_except_StanzaError
          poll_loop_exitCode poll_loop_exit_writes poll_loop_errors_logged
          poll_loop_disconnects loop(3))
qed

theorem polling_error_ends_loop_witness:
  "shutdown_focus (Returns (result_iq []))
      (map Returns [result_iq [stat_element ''conferences'' ''5'']]
        @ Raises (error_of ''cancel'' ''remote-server-timeout'')
        # [Returns (result_iq [stat_element ''conferences'' ''0''])])
      init_state
     = (Returned,
        \<lparr>exitCode = 0,
         trace = [SendShutdown, LogInfo ''Shutdown accepted'',
                  SendStats, LogInfo ''There are 5 conferences in progress'', Sleep 10,
                  SendStats, Disconnect True]\<rparr>)"
  using polling_error_ends_loop
    [of "result_iq []" "[result_iq [stat_element ''conferences'' ''5'']]"
        "error_of ''cancel'' ''remote-server-timeout''"
        "[Returns (result_iq [stat_element ''conferences'' ''0''])]" init_state]
  by (simp add: shutdown_focus_def except_StanzaError_def result_iq_def error_of_def
        init_state_def emit_def log_count_def Let_def)

lemma process_poll_raises:
  assumes "iq_type ack = ''result''"
    and "\<forall>r \<in> set pre. get_conferences (colibri_stats r) \<noteq> PyStr ''0''"
  shows "fst (process (Returns ack) (map Returns pre @ Raises err # rest) st) = Returned"
proof -
  let ?st2 = "emit (LogInfo ''Shutdown accepted'') (emit SendShutdown st)"
  let ?rs = "map Returns pre @ Raises err # rest"
  from assms(2) have "fst (poll_loop ?rs ?st2) = Raised err"
    using poll_loop_raises_counts [of pre err rest ?st2] by simp
  with assms(1) have "shutdown_focus (Returns ack) ?rs st
      = (Returned, except_StanzaError True err (snd (poll_loop ?rs ?st2)))"
    by (simp add: shutdown_focus_poll_raises)
  then show ?thesis
    by (simp add: process_def disconnected_except_StanzaError)
qed

text \<open>
  Claim C9. Once the shutdown request has been accepted (a response of type
  \<open>result\<close>), the handler leaves \<^verbatim>\<open>exitCode\<close> as it was and never assigns it,
  whatever the stats queries answer or raise; the exit code of the process, if it exits,
  is 0. In particular a stanza error raised during the polling loop, after polls that
  never showed the count 0, makes the process exit with code 0.
\<close>

theorem accepted_never_fails:
  "(iq_type ack = ''result'' \<longrightarrow>
      exitCode (snd (shutdown_focus (Returns ack) stats_replies st)) = exitCode st
      \<and> exit_writes (snd (shutdown_focus (Returns ack) stats_replies st)) = exit_writes st
      \<and> exitCode (snd (main opts connect_ok (Returns ack) stats_replies)) = 0)
   \<and> (iq_type ack = ''result''
       \<and> server opts = Some srv \<and> jid opts = Some j \<and> password opts = Some p
       \<and> focus opts = Some f \<longrightarrow>
        fst (main opts connect_ok (Returns ack) stats_replies) \<noteq> Some 1
        \<and> ((\<forall>r \<in> set pre. get_conferences (colibri_stats r) \<noteq> PyStr ''0'') \<longrightarrow>
             fst (main opts True (Returns ack) (map Returns pre @ Raises err # rest)) = Some 0))"
proof (intro conjI impI)
  show "exitCode (snd (shutdown_focus (Returns ack) stats_replies st)) = exitCode st"
    by (simp add: exitCode_shutdown_focus)
  show "exit_writes (snd (shutdown_focus (Returns ack) stats_replies st)) = exit_writes st"
    by (simp add: exit_writes_shutdown_focus)
  show zero: "exitCode (snd (main opts connect_ok (Returns ack) rs)) = 0" for connect_ok rs
    by (simp add: exitCode_main)
next
  assume h: "iq_type ack = ''result''
       \<and> server opts = Some srv \<and> jid opts = Some j \<and> password opts = Some p
       \<and> focus opts = Some f"
  have zero: "exitCode (snd (main opts c (Returns ack) rs)) = 0" for c rs
    by (simp add: exitCode_main)
  from h have m: "main opts c (Returns ack) rs
      = connect_and_run srv c (Returns ack) rs init_state" for c rs
    by (simp add: main_options_given)
  show "fst (main opts connect_ok (Returns ack) stats_replies) \<noteq> Some 1"
  proof
    assume "fst (main opts connect_ok (Returns ack) stats_replies) = Some 1"
    then have "1 = exitCode (snd (main opts connect_ok (Returns ack) stats_replies))"
      unfolding m by (rule fst_connect_and_run)
    with zero show False by simp
  qed
  assume nz: "\<forall>r \<in> set pre. get_conferences (colibri_stats r) \<noteq> PyStr ''0''"
  let ?rs = "map Returns pre @ Raises err # rest"
  from h nz have "fst (process (Returns ack) ?rs (emit (Connect srv 5222) init_state)) = Returned"
    by (simp add: process_poll_raises)
  then obtain c where c: "fst (main opts True (Returns ack) ?rs) = Some c"
    unfolding m
    by (cases "process (Returns ack) ?rs (emit (Connect srv 5222) init_state)")
       (simp add: connect_and_run_def Let_def)
  then have "c = exitCode (snd (main opts True (Returns ack) ?rs))"
    unfolding m by (rule fst_connect_and_run)
  with zero c show "fst (main opts True (Returns ack) ?rs) = Some 0"
    by simp
qed

theorem accepted_never_fails_witness:
  "main \<lparr>server = Some ''xmpp.example.org'', jid = Some ''admin@example.org'',
         password = Some ''secret'', focus = Some ''focus.example.org''\<rparr>
      True (Returns (result_iq []))
      (map Returns [result_iq [stat_element ''conferences'' ''5'']]
        @ Raises (error_of ''auth'' ''not-authorized'') # [])
     = (Some 0,
        \<lparr>exitCode = 0,
         trace = [Connect ''xmpp.example.org'' 5222, SendShutdown, LogInfo ''Shutdown accepted'',
                  SendStats, LogInfo ''There are 5 conferences in progress'', Sleep 10,
                  SendStats, Disconnect True, LogInfo ''Done'']\<rparr>)"
  using accepted_never_fails
    [of "result_iq []" "[]" init_state
        "\<lparr>server = Some ''xmpp.example.org'', jid = Some ''admin@example.org'',
         password = Some ''secret'', focus = Some ''focus.example.org''\<rparr>"
        True "''xmpp.example.org''" "''admin@example.org''" "''secret''" "''focus.example.org''"
        "[result_iq [stat_element ''conferences'' ''5'']]"
        "error_of ''auth'' ''not-authorized''" "[]"]
  by (simp add: main_def connect_and_run_def process_def shutdown_focus_def
        except_StanzaError_def result_iq_def error_of_def disconnected_def
        init_state_def emit_def log_count_def Let_def)

subsection \<open>The disconnect\<close>

lemma fst_shutdown_focus_accepted:
  "iq_type ack = ''result'' \<Longrightarrow>
   fst (shutdown_focus (Returns ack) stats_replies st) = Returned
     \<longleftrightarrow> fst (poll_loop stats_replies
              (emit (LogInfo ''Shutdown accepted'') (emit SendShutdown st))) \<noteq> Blocked"
  by (cases "poll_loop stats_replies (emit (LogInfo ''Shutdown accepted'') (emit SendShutdown st))")
     (auto simp: shutdown_focus_accepted split: loop_exit.splits)

lemma disconnects_shutdown_focus_accepted:
  assumes "iq_type ack = ''result''"
  shows "disconnects w (snd (shutdown_focus (Returns ack) stats_replies st))
     = disconnects w st
       + (if w \<and> fst (shutdown_focus (Returns ack) stats_replies st) = Returned then 1 else 0)"
proof -
  let ?st2 = "emit (LogInfo ''Shutdown accepted'') (emit SendShutdown st)"
  obtain x st3 where p: "poll_loop stats_replies ?st2 = (x, st3)"
    by (cases "poll_loop stats_replies ?st2")
  have "disconnects w (snd (poll_loop stats_replies ?st2)) = disconnects w st"
    by (simp add: poll_loop_disconnects)
  with p have d: "disconnects w st3 = disconnects w st" by simp
  show ?thesis
    using assms p d
    by (cases x) (simp_all add: shutdown_focus_accepted disconnects_except_StanzaError)
qed

lemma disconnects_shutdown_focus_Raises:
  "disconnects w (snd (shutdown_focus (Raises err) stats_replies st))
     = disconnects w st + (if w then 1 else 0)"
  by (simp add: shutdown_focus_Raises disconnects_except_StanzaError)

lemma disconnects_init [simp]: "disconnects w init_state = 0"
  by (simp add: disconnects_def)

lemma not_disconnected_iff: "\<not> disconnected st \<longleftrightarrow> (\<forall>w. disconnects w st = 0)"
proof -
  have "(case e of Disconnect w \<Rightarrow> True | _ \<Rightarrow> False) \<longleftrightarrow> (\<exists>w. e = Disconnect w)" for e
    by (cases e) simp_all
  then have "(\<exists>e \<in> set (trace st). case e of Disconnect w \<Rightarrow> True | _ \<Rightarrow> False)
        \<longleftrightarrow> (\<exists>w. Disconnect w \<in> set (trace st))"
    by auto
  then show ?thesis
    by (simp add: disconnected_def disconnects_def list_ex_iff count_list_0_iff)
qed

lemma process_Returned:
  "process a b st = (Returned, st2) \<Longrightarrow>
   shutdown_focus a b st = (Returned, st2) \<and> disconnected st2"
  by (auto simp: process_def split: prod.splits status.splits if_splits)

lemma connect_and_run_exits:
  assumes "fst (connect_and_run srv True a b st) = Some code"
  shows "\<exists>st2. shutdown_focus a b (emit (Connect srv 5222) st) = (Returned, st2)
            \<and> disconnected st2
            \<and> snd (connect_and_run srv True a b st) = emit (LogInfo ''Done'') st2"
proof -
  obtain s st2 where p: "process a b (emit (Connect srv 5222) st) = (s, st2)"
    by (cases "process a b (emit (Connect srv 5222) st)")
  with assms have s: "s = Returned"
    by (cases s) (simp_all add: connect_and_run_def Let_def)
  with p have "shutdown_focus a b (emit (Connect srv 5222) st) = (Returned, st2)
      \<and> disconnected st2"
    by (simp add: process_Returned)
  moreover from p s have "snd (connect_and_run srv True a b st) = emit (LogInfo ''Done'') st2"
    by (simp add: connect_and_run_def Let_def)
  ultimately show ?thesis by blast
qed

text \<open>
  Claim C4. On each exit path of the handler (the shutdown request accepted and the
  polls drained to zero, the request rejected with a benign error, the request rejected
  with a fatal error) \<^verbatim>\<open>disconnect(wait=True)\<close> is invoked exactly once: the
  handler returns with one more disconnect than it started with, and a run of the
  process that exits has exactly one disconnect in its trace, with \<open>wait\<close> set.
\<close>

theorem disconnect_exactly_once:
  "((shutdown_reply = Raises err \<or> shutdown_reply = Returns ack \<and> iq_type ack = ''result'')
    \<and> fst (shutdown_focus shutdown_reply stats_replies st) = Returned \<longrightarrow>
      disconnects True (snd (shutdown_focus shutdown_reply stats_replies st))
        = disconnects True st + 1
      \<and> disconnects False (snd (shutdown_focus shutdown_reply stats_replies st))
        = disconnects False st)
   \<and> fst (shutdown_focus (Raises err) stats_replies st) = Returned
   \<and> (iq_type ack = ''result''
       \<and> (\<exists>r \<in> set answers. get_conferences (colibri_stats r) = PyStr ''0'') \<longrightarrow>
        fst (shutdown_focus (Returns ack) (map Returns answers) st) = Returned)
   \<and> (server opts = Some srv \<and> jid opts = Some j \<and> password opts = Some p
       \<and> focus opts = Some f
       \<and> fst (main opts True shutdown_reply stats_replies) = Some code \<longrightarrow>
        disconnects True (snd (main opts True shutdown_reply stats_replies)) = 1
        \<and> disconnects False (snd (main opts True shutdown_reply stats_replies)) = 0)"
proof (intro conjI)
  show "(shutdown_reply = Raises err \<or> shutdown_reply = Returns ack \<and> iq_type ack = ''result'')
    \<and> fst (shutdown_focus shutdown_reply stats_replies st) = Returned \<longrightarrow>
      disconnects True (snd (shutdown_focus shutdown_reply stats_replies st))
        = disconnects True st + 1
      \<and> disconnects False (snd (shutdown_focus shutdown_reply stats_replies st))
        = disconnects False st"
    by (auto simp: disconnects_shutdown_focus_Raises disconnects_shutdown_focus_accepted)
  show "fst (shutdown_focus (Raises err) stats_replies st) = Returned"
    by (simp add: shutdown_focus_Raises)
  show "iq_type ack = ''result''
       \<and> (\<exists>r \<in> set answers. get_conferences (colibri_stats r) = PyStr ''0'') \<longrightarrow>
        fst (shutdown_focus (Returns ack) (map Returns answers) st) = Returned"
  proof (intro impI)
    assume h: "iq_type ack = ''result''
       \<and> (\<exists>r \<in> set answers. get_conferences (colibri_stats r) = PyStr ''0'')"
    then have "fst (poll_loop (map Returns answers)
                 (emit (LogInfo ''Shutdown accepted'') (emit SendShutdown st))) = Break"
      by (simp add: poll_loop_returns_break_iff)
    with h show "fst (shutdown_focus (Returns ack) (map Returns answers) st) = Returned"
      by (simp add: fst_shutdown_focus_accepted)
  qed
  show "server opts = Some srv \<and> jid opts = Some j \<and> password opts = Some p
       \<and> focus opts = Some f
       \<and> fst (main opts True shutdown_reply stats_replies) = Some code \<longrightarrow>
        disconnects True (snd (main opts True shutdown_reply stats_replies)) = 1
        \<and> disconnects False (snd (main opts True shutdown_reply stats_replies)) = 0"
  proof (intro impI)
    assume h: "server opts = Some srv \<and> jid opts = Some j \<and> password opts = Some p
       \<and> focus opts = Some f
       \<and> fst (main opts True shutdown_reply stats_replies) = Some code"
    let ?st1 = "emit (Connect srv 5222) init_state"
    from h have m: "main opts True shutdown_reply stats_replies
        = connect_and_run srv True shutdown_reply stats_replies init_state"
      by (simp add: main_options_given)
    with h have "fst (connect_and_run srv True shutdown_reply stats_replies init_state) = Some code"
      by simp
    then obtain st2 where sf: "shutdown_focus shutdown_reply stats_replies ?st1 = (Returned, st2)"
      and dc: "disconnected st2"
      and fin: "snd (main opts True shutdown_reply stats_replies) = emit (LogInfo ''Done'') st2"
      unfolding m using connect_and_run_exits by blast
    have one: "disconnects w st2 = (if w then 1 else 0)" for w
    proof (cases shutdown_reply)
      case (Raises e)
      with sf show ?thesis
        using disconnects_shutdown_focus_Raises [of w e stats_replies ?st1] by simp
    next
      case (Returns resp)
      show ?thesis
      proof (cases "iq_type resp = ''result''")
        case True
        with sf Returns show ?thesis
          using disconnects_shutdown_focus_accepted [of resp w stats_replies ?st1] by simp
      next
        case False
        with sf Returns have "st2 = emit SendShutdown ?st1"
          by (simp add: shutdown_focus_not_result)
        then have "\<not> disconnected st2"
          by (simp add: not_disconnected_iff)
        with dc show ?thesis by simp
      qed
    qed
    show "disconnects True (snd (main opts True shutdown_reply stats_replies)) = 1
        \<and> disconnects False (snd (main opts True shutdown_reply stats_replies)) = 0"
      unfolding fin using one [of True] one [of False] by simp
  qed
qed

theorem disconnect_exactly_once_witness:
  "fst (shutdown_focus (Returns (result_iq []))
         (map Returns [result_iq [stat_element ''conferences'' ''1''],
                       result_iq [stat_element ''conferences'' ''0'']]) init_state) = Returned
   \<and> disconnects True (snd (shutdown_focus (Returns (result_iq []))
         (map Returns [result_iq [stat_element ''conferences'' ''1''],
                       result_iq [stat_element ''conferences'' ''0'']]) init_state)) = 1
   \<and> disconnects False (snd (shutdown_focus (Returns (result_iq []))
         (map Returns [result_iq [stat_element ''conferences'' ''1''],
                       result_iq [stat_element ''conferences'' ''0'']]) init_state)) = 0
   \<and> fst (main \<lparr>server = Some ''xmpp.example.org'', jid = Some ''admin@example.org'',
         password = Some ''secret'', focus = Some ''focus.example.org''\<rparr>
         True (Returns (result_iq []))
         (map Returns [result_iq [stat_element ''conferences'' ''1''],
                       result_iq [stat_element ''conferences'' ''0'']])) = Some 0
   \<and> disconnects True (snd (main \<lparr>server = Some ''xmpp.example.org'',
         jid = Some ''admin@example.org'',
         password = Some ''secret'', focus = Some ''focus.example.org''\<rparr>
         True (Returns (result_iq []))
         (map Returns [result_iq [stat_element ''conferences'' ''1''],
                       result_iq [stat_element ''conferences'' ''0'']]))) = 1"
  using disconnect_exactly_once
    [of "Returns (result_iq [])" "error_of ''wait'' ''resource-constraint''" "result_iq []"
        "map Returns [result_iq [stat_element ''conferences'' ''1''],
                      result_iq [stat_element ''conferences'' ''0'']]"
        init_state
        "[result_iq [stat_element ''conferences'' ''1''],
          result_iq [stat_element ''conferences'' ''0'']]"
        "\<lparr>server = Some ''xmpp.example.org'', jid = Some ''admin@example.org'',
         password = Some ''secret'', focus = Some ''focus.example.org''\<rparr>"
        "''xmpp.example.org''" "''admin@example.org''" "''secret''" "''focus.example.org''" 0]
  by (simp add: main_def connect_and_run_def process_def shutdown_focus_def
        result_iq_def disconnected_def disconnects_def
        init_state_def emit_def log_count_def Let_def)

end
